theory Spec2Isabelle
  imports Main "HOL-Library.Multiset" "HOL-Library.Sublist"
begin

section \<open>The school site of app.py\<close>

text \<open>
  The application is a Flask program: three SQLAlchemy tables, two WTForms forms and six
  request handlers, plus the command line helper that creates an administrator. The
  handlers are embedded as functions from the request and the state (the three tables and
  the Flask-Login entry of the caller's session) to a reply and the new state. The route
  that serves uploaded files touches neither and is left out.

  Four functions of the libraries are taken as parameters, because the handlers only call
  them and nothing here depends on how they compute: Python's \<open>int\<close> on a string, the
  address check behind the \<open>Email\<close> validator, and werkzeug's two password functions.
  Python strings are modelled by \<open>string\<close>, one \<open>char\<close> per character, Python integers
  by \<open>int\<close>. The database is the SQLite file config.py names. A table keeps a string
  of any length; an \<open>Integer\<close> column keeps a signed 64-bit integer, and a commit that is
  handed a larger one raises \<open>OverflowError\<close>. The constraints the columns declare in
  app.py (\<open>nullable=False\<close>, \<open>unique=True\<close>) are checked at commit.
\<close>

subsection \<open>Library functions the handlers call\<close>

record library =
  py_int :: "string \<Rightarrow> int option"
  validate_email :: "string \<Rightarrow> bool"
  generate_password_hash :: "string \<Rightarrow> string \<Rightarrow> string"
  check_password_hash :: "string \<Rightarrow> string \<Rightarrow> bool"

text \<open>
  \<open>py_int L s\<close> is \<open>int(s)\<close>, with \<open>None\<close> for a \<open>ValueError\<close>;
  \<open>validate_email L s\<close> says that \<open>email_validator.validate_email(s)\<close> does not raise;
  \<open>generate_password_hash L password salt\<close> is werkzeug's function, its random salt made
  an argument; \<open>check_password_hash L pwhash password\<close> is werkzeug's check.
\<close>

text \<open>\<open>str.isspace\<close> on the characters below 256, and \<open>str.strip()\<close>.\<close>

definition py_isspace :: "char \<Rightarrow> bool" where
  "py_isspace c =
     (of_char c \<in> {9, 10, 11, 12, 13, 28, 29, 30, 31, 32, 133, 160 :: nat})"

definition py_strip :: "string \<Rightarrow> string" where
  "py_strip s = rev (dropWhile py_isspace (rev (dropWhile py_isspace s)))"

subsection \<open>Tables\<close>

type_synonym datetime = int

record Admin =
  admin_id :: int
  admin_email :: string
  admin_password_hash :: string
  admin_name :: "string option"

record Admission =
  admission_id :: int
  admission_student_name :: string
  admission_student_class :: "string option"
  admission_age :: "int option"
  admission_parent_email :: "string option"
  admission_phone :: "string option"
  admission_message :: "string option"
  admission_submitted_at :: datetime

record Notice =
  notice_id :: int
  notice_title :: string
  notice_content :: string
  notice_date :: datetime

text \<open>
  The state: the rows of each table in the order of their insertion, and \<open>user_id\<close>,
  the identifier Flask-Login keeps in the caller's session (\<open>None\<close> for an anonymous
  caller).
\<close>

record state =
  admins :: "Admin list"
  admissions :: "Admission list"
  notices :: "Notice list"
  user_id :: "int option"

datatype db_error = IntegrityError | OverflowError

text \<open>The integers an \<open>Integer\<close> column of SQLite holds.\<close>

definition fits_int64 :: "int \<Rightarrow> bool" where
  "fits_int64 i = (- (2 ^ 63) \<le> i \<and> i < 2 ^ 63)"

text \<open>An integer primary key: one more than the largest key of the table.\<close>

definition next_id :: "int list \<Rightarrow> int" where
  "next_id ids = fold max ids 0 + 1"

text \<open>
  \<open>db.session.add(Admission(...)); db.session.commit()\<close>. An age that does not fit
  the column makes the binding of the insert raise \<open>OverflowError\<close>; the column
  \<open>student_name\<close> is \<open>nullable=False\<close>; \<open>submitted_at\<close> takes its default, the clock
  at the insertion. A commit that raises leaves the table as it was.
\<close>

definition commit_Admission ::
  "datetime \<Rightarrow> string option \<Rightarrow> string option \<Rightarrow> int option \<Rightarrow> string option \<Rightarrow>
   string option \<Rightarrow> string option \<Rightarrow> state \<Rightarrow> db_error + state" where
  "commit_Admission now sname sclass a pemail ph msg s =
     (if (case a of None \<Rightarrow> False | Some i \<Rightarrow> \<not> fits_int64 i) then Inl OverflowError
      else
        (case sname of
           None \<Rightarrow> Inl IntegrityError
         | Some n \<Rightarrow>
             Inr (s\<lparr>admissions := admissions s @
               [\<lparr>admission_id = next_id (map admission_id (admissions s)),
                 admission_student_name = n,
                 admission_student_class = sclass,
                 admission_age = a,
                 admission_parent_email = pemail,
                 admission_phone = ph,
                 admission_message = msg,
                 admission_submitted_at = now\<rparr>]\<rparr>)))"

text \<open>\<open>db.session.add(Notice(title=..., content=...)); db.session.commit()\<close>.\<close>

definition commit_Notice :: "datetime \<Rightarrow> string \<Rightarrow> string \<Rightarrow> state \<Rightarrow> db_error + state" where
  "commit_Notice now t c s =
     Inr (s\<lparr>notices := notices s @
       [\<lparr>notice_id = next_id (map notice_id (notices s)),
         notice_title = t, notice_content = c, notice_date = now\<rparr>]\<rparr>)"

text \<open>
  \<open>db.session.add(admin); db.session.commit()\<close>. The column \<open>email\<close> is
  \<open>unique=True\<close>.
\<close>

definition commit_Admin :: "string \<Rightarrow> string \<Rightarrow> string option \<Rightarrow> state \<Rightarrow> db_error + state" where
  "commit_Admin e h n s =
     (if e \<in> set (map admin_email (admins s)) then Inl IntegrityError
      else Inr (s\<lparr>admins := admins s @
        [\<lparr>admin_id = next_id (map admin_id (admins s)),
          admin_email = e, admin_password_hash = h, admin_name = n\<rparr>]\<rparr>))"

subsection \<open>Requests and forms\<close>

datatype http_method = GET | POST

text \<open>
  A request: its method, \<open>request.form\<close> as the list of its pairs, and whether the
  CSRF token sent with it passes Flask-WTF's check against the caller's session.
\<close>

record request =
  http_method :: http_method
  form :: "(string \<times> string) list"
  csrf_valid :: bool

definition getlist :: "(string \<times> string) list \<Rightarrow> string \<Rightarrow> string list" where
  "getlist fd k = map snd (filter (\<lambda>p. fst p = k) fd)"

text \<open>\<open>request.form.get(k)\<close>: the first value of the key, or \<open>None\<close>.\<close>

definition form_get :: "request \<Rightarrow> string \<Rightarrow> string option" where
  "form_get r k = (case getlist (form r) k of [] \<Rightarrow> None | v # _ \<Rightarrow> Some v)"

text \<open>\<open>FlaskForm.is_submitted\<close>, and the form data Flask-WTF hands to the form.\<close>

definition is_submitted :: "request \<Rightarrow> bool" where
  "is_submitted r = (http_method r = POST)"

definition formdata :: "request \<Rightarrow> (string \<times> string) list option" where
  "formdata r = (if is_submitted r then Some (form r) else None)"

text \<open>
  A WTForms field after \<open>process\<close>: its data, the errors of processing, and the errors
  \<open>validate\<close> leaves (empty until \<open>validate\<close> runs). WTForms words an error through
  its translations; here an error is named by its kind: \<open>Required\<close> is "This field is
  required.", \<open>NotAnInteger\<close> "Not a valid integer value.", \<open>InvalidEmail\<close> "Invalid
  email address.", \<open>TooLong m\<close> "Field cannot be longer than m characters.", and
  \<open>CSRFError\<close> any of the messages of Flask-WTF's token check.
\<close>

datatype field_error = Required | NotAnInteger | InvalidEmail | TooLong nat | CSRFError

record 'a Field =
  data :: "'a option"
  process_errors :: "field_error list"
  errors :: "field_error list"

definition StringField :: "(string \<times> string) list option \<Rightarrow> string \<Rightarrow> string Field" where
  "StringField fd nm =
     (case fd of
        None \<Rightarrow> \<lparr>data = None, process_errors = [], errors = []\<rparr>
      | Some d \<Rightarrow>
          (case getlist d nm of
             [] \<Rightarrow> \<lparr>data = None, process_errors = [], errors = []\<rparr>
           | v # _ \<Rightarrow> \<lparr>data = Some v, process_errors = [], errors = []\<rparr>))"

definition IntegerField :: "library \<Rightarrow> (string \<times> string) list option \<Rightarrow> string \<Rightarrow> int Field" where
  "IntegerField L fd nm =
     (case fd of
        None \<Rightarrow> \<lparr>data = None, process_errors = [], errors = []\<rparr>
      | Some d \<Rightarrow>
          (case getlist d nm of
             [] \<Rightarrow> \<lparr>data = None, process_errors = [], errors = []\<rparr>
           | v # _ \<Rightarrow>
               (case py_int L v of
                  Some i \<Rightarrow> \<lparr>data = Some i, process_errors = [], errors = []\<rparr>
                | None \<Rightarrow>
                    \<lparr>data = None, process_errors = [NotAnInteger],
                      errors = []\<rparr>)))"

text \<open>
  A validator reads the data and the errors so far, and gives the errors after it and
  whether the chain stops (\<open>StopValidation\<close>).
\<close>

type_synonym 'a validator = "'a option \<Rightarrow> field_error list \<Rightarrow> field_error list \<times> bool"

text \<open>
  \<open>DataRequired\<close> passes data that is truthy and, for a string, not only white space;
  otherwise it empties the field's errors and stops the chain with its message.
\<close>

definition DataRequired_str :: "string validator" where
  "DataRequired_str d errs =
     (case d of
        None \<Rightarrow> ([Required], True)
      | Some s \<Rightarrow>
          if s \<noteq> [] \<and> py_strip s \<noteq> [] then (errs, False)
          else ([Required], True))"

definition DataRequired_int :: "int validator" where
  "DataRequired_int d errs =
     (case d of
        None \<Rightarrow> ([Required], True)
      | Some i \<Rightarrow>
          if i \<noteq> 0 then (errs, False)
          else ([Required], True))"

definition Email :: "library \<Rightarrow> string validator" where
  "Email L d errs =
     (case d of
        None \<Rightarrow> (errs @ [InvalidEmail], False)
      | Some s \<Rightarrow>
          if validate_email L s then (errs, False)
          else (errs @ [InvalidEmail], False))"

definition Length_max :: "nat \<Rightarrow> string validator" where
  "Length_max m d errs =
     (let l = (case d of None \<Rightarrow> 0 | Some s \<Rightarrow> length s) in
      if l \<le> m then (errs, False)
      else (errs @ [TooLong m], False))"

fun run_validation_chain ::
  "'a validator list \<Rightarrow> 'a option \<Rightarrow> field_error list \<Rightarrow> field_error list" where
  "run_validation_chain [] d errs = errs"
| "run_validation_chain (v # vs) d errs =
     (case v d errs of
        (errs', stop) \<Rightarrow> if stop then errs' else run_validation_chain vs d errs')"

definition Field_validate :: "'a validator list \<Rightarrow> 'a Field \<Rightarrow> 'a Field" where
  "Field_validate vs f = f\<lparr>errors := run_validation_chain vs (data f) (process_errors f)\<rparr>"

text \<open>The hidden token field of a FlaskForm: its check is the request's CSRF check.\<close>

definition validate_csrf_token :: "request \<Rightarrow> string Field \<Rightarrow> string Field" where
  "validate_csrf_token r f =
     f\<lparr>errors := process_errors f @ (if csrf_valid r then [] else [CSRFError])\<rparr>"

subsection \<open>AdmissionForm\<close>

record AdmissionForm =
  csrf_token :: "string Field"
  student_name :: "string Field"
  student_class :: "string Field"
  age :: "int Field"
  parent_email :: "string Field"
  phone :: "string Field"
  message :: "string Field"

text \<open>
  \<open>AdmissionForm()\<close>: every field processed from the form data. The submit button has
  no validator and carries no error; it is left out, here and in \<open>LoginForm\<close>.
\<close>

definition AdmissionForm :: "library \<Rightarrow> request \<Rightarrow> AdmissionForm" where
  "AdmissionForm L r =
     \<lparr>csrf_token = StringField (formdata r) ''csrf_token'',
      student_name = StringField (formdata r) ''student_name'',
      student_class = StringField (formdata r) ''student_class'',
      age = IntegerField L (formdata r) ''age'',
      parent_email = StringField (formdata r) ''parent_email'',
      phone = StringField (formdata r) ''phone'',
      message = StringField (formdata r) ''message''\<rparr>"

text \<open>\<open>form.validate()\<close>: every field runs its validators; the form with the errors.\<close>

definition AdmissionForm_validate :: "library \<Rightarrow> request \<Rightarrow> AdmissionForm \<Rightarrow> AdmissionForm" where
  "AdmissionForm_validate L r f =
     \<lparr>csrf_token = validate_csrf_token r (csrf_token f),
      student_name = Field_validate [DataRequired_str, Length_max 200] (student_name f),
      student_class = Field_validate [DataRequired_str] (student_class f),
      age = Field_validate [DataRequired_int] (age f),
      parent_email = Field_validate [Email L, Length_max 150] (parent_email f),
      phone = Field_validate [Length_max 50] (phone f),
      message = Field_validate [] (message f)\<rparr>"

definition AdmissionForm_ok :: "AdmissionForm \<Rightarrow> bool" where
  "AdmissionForm_ok f =
     (errors (csrf_token f) = [] \<and> errors (student_name f) = [] \<and>
      errors (student_class f) = [] \<and> errors (age f) = [] \<and>
      errors (parent_email f) = [] \<and> errors (phone f) = [] \<and> errors (message f) = [])"

subsection \<open>LoginForm\<close>

record LoginForm =
  login_csrf_token :: "string Field"
  email :: "string Field"
  password :: "string Field"

definition LoginForm :: "request \<Rightarrow> LoginForm" where
  "LoginForm r =
     \<lparr>login_csrf_token = StringField (formdata r) ''csrf_token'',
      email = StringField (formdata r) ''email'',
      password = StringField (formdata r) ''password''\<rparr>"

definition LoginForm_validate :: "library \<Rightarrow> request \<Rightarrow> LoginForm \<Rightarrow> LoginForm" where
  "LoginForm_validate L r f =
     \<lparr>login_csrf_token = validate_csrf_token r (login_csrf_token f),
      email = Field_validate [DataRequired_str, Email L] (email f),
      password = Field_validate [DataRequired_str] (password f)\<rparr>"

definition LoginForm_ok :: "LoginForm \<Rightarrow> bool" where
  "LoginForm_ok f =
     (errors (login_csrf_token f) = [] \<and> errors (email f) = [] \<and> errors (password f) = [])"

subsection \<open>Replies\<close>

text \<open>
  What a handler hands back: a rendered template with the values passed to it, or a
  redirect to an endpoint; the messages it flashed, each with its category; and the state
  it leaves. \<open>InternalServerError\<close> stands for an exception that leaves the handler.
\<close>

datatype template_context =
    Notices_ctx "Notice list"
  | AdmissionForm_ctx AdmissionForm
  | LoginForm_ctx LoginForm
  | Dashboard_ctx "Admission list" "Notice list"

datatype response =
    Render string template_context
  | Redirect string
  | InternalServerError

record reply =
  response :: response
  flashes :: "(string \<times> string) list"
  new_state :: state

subsection \<open>Queries\<close>

text \<open>
  \<open>order_by(column.desc())\<close>: the rows sorted by the column, latest first (rows of
  equal time keep the order of their insertion; SQL leaves that order open).
\<close>

definition order_by_desc :: "('a \<Rightarrow> datetime) \<Rightarrow> 'a list \<Rightarrow> 'a list" where
  "order_by_desc col rows = sort_key (\<lambda>r. - col r) rows"

definition limit :: "nat \<Rightarrow> 'a list \<Rightarrow> 'a list" where
  "limit n rows = take n rows"

text \<open>\<open>Admin.query.filter_by(email=e).first()\<close> and \<open>Admin.query.get(i)\<close>.\<close>

definition first_by_email :: "state \<Rightarrow> string \<Rightarrow> Admin option" where
  "first_by_email s e = find (\<lambda>a. admin_email a = e) (admins s)"

definition load_user :: "state \<Rightarrow> int \<Rightarrow> Admin option" where
  "load_user s i = find (\<lambda>a. admin_id a = i) (admins s)"

subsection \<open>Session\<close>

text \<open>
  \<open>current_user.is_authenticated\<close>: the session names a user and \<open>load_user\<close> finds
  it. \<open>login_required\<close> runs the view for such a caller and sends every other one to
  the login view.
\<close>

definition is_authenticated :: "state \<Rightarrow> bool" where
  "is_authenticated s =
     (case user_id s of None \<Rightarrow> False | Some i \<Rightarrow> load_user s i \<noteq> None)"

definition login_required :: "(state \<Rightarrow> reply) \<Rightarrow> state \<Rightarrow> reply" where
  "login_required view s =
     (if is_authenticated s then view s
      else \<lparr>response = Redirect ''admin_login'',
             flashes = [(''Please log in to access this page.'', ''message'')],
             new_state = s\<rparr>)"

subsection \<open>Handlers\<close>

definition index :: "state \<Rightarrow> reply" where
  "index s =
     \<lparr>response = Render ''index.html'' (Notices_ctx (limit 5 (order_by_desc notice_date (notices s)))),
      flashes = [],
      new_state = s\<rparr>"

definition admission :: "library \<Rightarrow> datetime \<Rightarrow> request \<Rightarrow> state \<Rightarrow> reply" where
  "admission L now r s =
     (let f = AdmissionForm L r in
      if is_submitted r then
        (let f' = AdmissionForm_validate L r f in
         if AdmissionForm_ok f' then
           (case commit_Admission now (data (student_name f')) (data (student_class f'))
                   (data (age f')) (data (parent_email f')) (data (phone f'))
                   (data (message f')) s of
              Inl e \<Rightarrow> \<lparr>response = InternalServerError, flashes = [], new_state = s\<rparr>
            | Inr s' \<Rightarrow>
                \<lparr>response = Redirect ''admission'',
                  flashes = [(''Application submitted. We will contact you soon.'', ''success'')],
                  new_state = s'\<rparr>)
         else \<lparr>response = Render ''admission.html'' (AdmissionForm_ctx f'), flashes = [],
                new_state = s\<rparr>)
      else \<lparr>response = Render ''admission.html'' (AdmissionForm_ctx f), flashes = [],
             new_state = s\<rparr>)"

text \<open>
  \<open>admin_login\<close>. After a valid form both fields hold data; the two branches for absent
  data keep the function total: a query for the email \<open>None\<close> finds no row, and
  \<open>check_password_hash\<close> on the password \<open>None\<close> raises.
\<close>

definition invalid_credentials :: "LoginForm \<Rightarrow> state \<Rightarrow> reply" where
  "invalid_credentials f s =
     \<lparr>response = Render ''admin_login.html'' (LoginForm_ctx f),
      flashes = [(''Invalid credentials'', ''danger'')],
      new_state = s\<rparr>"

definition admin_login :: "library \<Rightarrow> request \<Rightarrow> state \<Rightarrow> reply" where
  "admin_login L r s =
     (let f = LoginForm r in
      if is_submitted r then
        (let f' = LoginForm_validate L r f in
         if LoginForm_ok f' then
           (case data (email f') of
              None \<Rightarrow> invalid_credentials f' s
            | Some e \<Rightarrow>
                (case first_by_email s e of
                   None \<Rightarrow> invalid_credentials f' s
                 | Some admin \<Rightarrow>
                     (case data (password f') of
                        None \<Rightarrow> \<lparr>response = InternalServerError, flashes = [], new_state = s\<rparr>
                      | Some p \<Rightarrow>
                          if check_password_hash L (admin_password_hash admin) p then
                            \<lparr>response = Redirect ''admin_dashboard'',
                              flashes = [(''Logged in successfully'', ''success'')],
                              new_state = s\<lparr>user_id := Some (admin_id admin)\<rparr>\<rparr>
                          else invalid_credentials f' s)))
         else \<lparr>response = Render ''admin_login.html'' (LoginForm_ctx f'), flashes = [],
                new_state = s\<rparr>)
      else \<lparr>response = Render ''admin_login.html'' (LoginForm_ctx f), flashes = [],
             new_state = s\<rparr>)"

definition admin_dashboard_view :: "state \<Rightarrow> reply" where
  "admin_dashboard_view s =
     \<lparr>response = Render ''admin_dashboard.html''
        (Dashboard_ctx (limit 50 (order_by_desc admission_submitted_at (admissions s)))
                       (order_by_desc notice_date (notices s))),
      flashes = [],
      new_state = s\<rparr>"

definition admin_dashboard :: "state \<Rightarrow> reply" where
  "admin_dashboard s = login_required admin_dashboard_view s"

definition admin_logout_view :: "state \<Rightarrow> reply" where
  "admin_logout_view s =
     \<lparr>response = Redirect ''admin_login'', flashes = [], new_state = s\<lparr>user_id := None\<rparr>\<rparr>"

definition admin_logout :: "state \<Rightarrow> reply" where
  "admin_logout s = login_required admin_logout_view s"

text \<open>
  \<open>add_notice\<close>: \<open>if title and content\<close> holds when both values are present and not
  empty.
\<close>

definition add_notice_view :: "datetime \<Rightarrow> request \<Rightarrow> state \<Rightarrow> reply" where
  "add_notice_view now r s =
     (case (form_get r ''title'', form_get r ''content'') of
        (Some title, Some content) \<Rightarrow>
          if title \<noteq> [] \<and> content \<noteq> [] then
            (case commit_Notice now title content s of
               Inl e \<Rightarrow> \<lparr>response = InternalServerError, flashes = [], new_state = s\<rparr>
             | Inr s' \<Rightarrow>
                 \<lparr>response = Redirect ''admin_dashboard'',
                   flashes = [(''Notice added'', ''success'')], new_state = s'\<rparr>)
          else \<lparr>response = Redirect ''admin_dashboard'', flashes = [], new_state = s\<rparr>
      | _ \<Rightarrow> \<lparr>response = Redirect ''admin_dashboard'', flashes = [], new_state = s\<rparr>)"

definition add_notice :: "datetime \<Rightarrow> request \<Rightarrow> state \<Rightarrow> reply" where
  "add_notice now r s = login_required (add_notice_view now r) s"

subsection \<open>The command create-admin\<close>

text \<open>
  The three values the operator types and the salt werkzeug draws are arguments; the
  result is what the command prints and the state it leaves, or the exception of the
  commit.
\<close>

definition create_admin ::
  "library \<Rightarrow> string \<Rightarrow> string \<Rightarrow> string \<Rightarrow> string \<Rightarrow> state \<Rightarrow> db_error + string \<times> state" where
  "create_admin L email_typed name_typed password_typed salt s =
     (let e = py_strip email_typed; n = py_strip name_typed in
      if e = [] \<or> password_typed = [] then Inr (''Email and password are required'', s)
      else if first_by_email s e \<noteq> None then Inr (''Admin already exists'', s)
      else
        (case commit_Admin e (generate_password_hash L password_typed salt) (Some n) s of
           Inl err \<Rightarrow> Inl err
         | Inr s' \<Rightarrow> Inr (''Admin created.'', s')))"

subsection \<open>Runs\<close>

text \<open>
  The operations on the state: the six handlers, each with what its request carries and
  the clock at its insertion, and the command. The route of \<open>add_notice\<close> takes POST
  only; \<open>step\<close> gives the state after one operation, \<open>run\<close> after a list of them.
\<close>

datatype operation =
    Home
  | Submit_admission datetime request
  | Admin_login request
  | Dashboard
  | Logout
  | Add_notice datetime request
  | Create_admin string string string string

fun step :: "library \<Rightarrow> operation \<Rightarrow> state \<Rightarrow> state" where
  "step L Home s = new_state (index s)"
| "step L (Submit_admission now r) s = new_state (admission L now r s)"
| "step L (Admin_login r) s = new_state (admin_login L r s)"
| "step L Dashboard s = new_state (admin_dashboard s)"
| "step L Logout s = new_state (admin_logout s)"
| "step L (Add_notice now r) s =
     (if http_method r = POST then new_state (add_notice now r s) else s)"
| "step L (Create_admin e n p salt) s =
     (case create_admin L e n p salt s of Inl err \<Rightarrow> s | Inr (out, s') \<Rightarrow> s')"

definition run :: "library \<Rightarrow> operation list \<Rightarrow> state \<Rightarrow> state" where
  "run L ops s = fold (step L) ops s"

definition empty_state :: state where
  "empty_state = \<lparr>admins = [], admissions = [], notices = [], user_id = None\<rparr>"

subsection \<open>An instance of the library\<close>

text \<open>
  A small instance of the four library functions, to evaluate the handlers on examples:
  unsigned decimal numerals for \<open>int\<close>, an address check that asks for an at-sign, and
  a toy hash that joins the salt and the reversed password.
\<close>

definition is_digit :: "char \<Rightarrow> bool" where
  "is_digit c = (48 \<le> (of_char c :: nat) \<and> (of_char c :: nat) \<le> 57)"

definition decimal :: "string \<Rightarrow> int option" where
  "decimal s =
     (if s \<noteq> [] \<and> list_all is_digit s
      then Some (foldl (\<lambda>a c. 10 * a + (int (of_char c) - 48)) 0 s) else None)"

definition example_library :: library where
  "example_library =
     \<lparr>py_int = decimal,
      validate_email = (\<lambda>s. CHR ''@'' \<in> set s),
      generate_password_hash = (\<lambda>p salt. salt @ ''$'' @ rev p),
      check_password_hash = (\<lambda>h p. dropWhile (\<lambda>c. c \<noteq> CHR ''$'') h = ''$'' @ rev p)\<rparr>"

subsection \<open>Vocabulary of the statements\<close>

text \<open>
  Names for what the statements speak of: a form after \<open>validate\<close>, the value of
  \<open>form.validate_on_submit()\<close>, a value that is absent from the form data or empty, and
  the three ways the email and the password of a login request can stand to the Admin
  table.
\<close>

definition AdmissionForm_validated :: "library \<Rightarrow> request \<Rightarrow> AdmissionForm" where
  "AdmissionForm_validated L r = AdmissionForm_validate L r (AdmissionForm L r)"

definition AdmissionForm_validate_on_submit :: "library \<Rightarrow> request \<Rightarrow> bool" where
  "AdmissionForm_validate_on_submit L r =
     (is_submitted r \<and> AdmissionForm_ok (AdmissionForm_validated L r))"

definition missing :: "request \<Rightarrow> string \<Rightarrow> bool" where
  "missing r k = (form_get r k = None \<or> form_get r k = Some [])"

definition LoginForm_validated :: "library \<Rightarrow> request \<Rightarrow> LoginForm" where
  "LoginForm_validated L r = LoginForm_validate L r (LoginForm r)"

definition LoginForm_validate_on_submit :: "library \<Rightarrow> request \<Rightarrow> bool" where
  "LoginForm_validate_on_submit L r = (is_submitted r \<and> LoginForm_ok (LoginForm_validated L r))"

definition no_such_email :: "state \<Rightarrow> request \<Rightarrow> bool" where
  "no_such_email s r =
     (case form_get r ''email'' of None \<Rightarrow> False | Some e \<Rightarrow> first_by_email s e = None)"

definition wrong_password :: "library \<Rightarrow> state \<Rightarrow> request \<Rightarrow> bool" where
  "wrong_password L s r =
     (case form_get r ''email'' of
        None \<Rightarrow> False
      | Some e \<Rightarrow>
          (case first_by_email s e of
             None \<Rightarrow> False
           | Some a \<Rightarrow>
               (case form_get r ''password'' of
                  None \<Rightarrow> False
                | Some p \<Rightarrow> \<not> check_password_hash L (admin_password_hash a) p)))"

definition correct_credentials :: "library \<Rightarrow> state \<Rightarrow> request \<Rightarrow> Admin \<Rightarrow> bool" where
  "correct_credentials L s r a =
     (case form_get r ''email'' of
        None \<Rightarrow> False
      | Some e \<Rightarrow>
          first_by_email s e = Some a \<and>
          (case form_get r ''password'' of
             None \<Rightarrow> False
           | Some p \<Rightarrow> check_password_hash L (admin_password_hash a) p))"

subsection \<open>Example inputs\<close>

text \<open>The submission of the example scenario, and a state with one administrator.\<close>

definition example_submission :: request where
  "example_submission =
     \<lparr>http_method = POST,
      form = [(''student_name'', ''Asha Rao''), (''student_class'', ''Class 9''),
              (''age'', ''14''), (''parent_email'', ''p@example.com''),
              (''phone'', []), (''message'', [])],
      csrf_valid = True\<rparr>"

definition example_state :: state where
  "example_state =
     \<lparr>admins = [\<lparr>admin_id = 1, admin_email = ''head@school.org'',
                  admin_password_hash = ''salt$terces'', admin_name = Some ''Head''\<rparr>],
      admissions = [], notices = [], user_id = None\<rparr>"

definition incomplete_submission :: request where
  "incomplete_submission =
     \<lparr>http_method = POST,
      form = [(''student_name'', []), (''age'', ''fourteen''), (''phone'', ''12345'')],
      csrf_valid = True\<rparr>"

definition no_email_submission :: request where
  "no_email_submission =
     \<lparr>http_method = POST,
      form = [(''student_name'', ''Asha Rao''), (''student_class'', ''Class 9''),
              (''age'', ''14''), (''parent_email'', [])],
      csrf_valid = True\<rparr>"

definition age_zero_submission :: request where
  "age_zero_submission =
     \<lparr>http_method = POST,
      form = [(''student_name'', ''Asha Rao''), (''student_class'', ''Class 9''),
              (''age'', ''0''), (''parent_email'', ''p@example.com'')],
      csrf_valid = True\<rparr>"

definition example_notice_request :: request where
  "example_notice_request =
     \<lparr>http_method = POST,
      form = [(''title'', ''Sports day''), (''content'', ''Friday at nine'')],
      csrf_valid = False\<rparr>"

definition empty_title_request :: request where
  "empty_title_request =
     \<lparr>http_method = POST,
      form = [(''title'', []), (''content'', ''Friday at nine'')],
      csrf_valid = False\<rparr>"

definition logged_in_state :: state where
  "logged_in_state = example_state\<lparr>user_id := Some 1\<rparr>"

definition notice_board :: state where
  "notice_board =
     \<lparr>admins = [\<lparr>admin_id = 1, admin_email = ''head@school.org'',
                  admin_password_hash = ''salt$terces'', admin_name = Some ''Head''\<rparr>],
      admissions = [],
      notices = map (\<lambda>i. \<lparr>notice_id = i, notice_title = ''t'', notice_content = ''c'',
                             notice_date = 10 * i\<rparr>) [1, 2, 3, 4, 5, 6, 7],
      user_id = Some 1\<rparr>"

definition unknown_email_login :: request where
  "unknown_email_login =
     \<lparr>http_method = POST,
      form = [(''email'', ''nobody@school.org''), (''password'', ''guess'')],
      csrf_valid = True\<rparr>"

definition bad_password_login :: request where
  "bad_password_login =
     \<lparr>http_method = POST,
      form = [(''email'', ''head@school.org''), (''password'', ''guess'')],
      csrf_valid = True\<rparr>"

definition empty_password_login :: request where
  "empty_password_login =
     \<lparr>http_method = POST,
      form = [(''email'', ''head@school.org''), (''password'', [])],
      csrf_valid = True\<rparr>"

definition good_login :: request where
  "good_login =
     \<lparr>http_method = POST,
      form = [(''email'', ''head@school.org''), (''password'', ''secret'')],
      csrf_valid = True\<rparr>"

definition plain_name_login :: request where
  "plain_name_login =
     \<lparr>http_method = POST,
      form = [(''email'', ''head''), (''password'', ''secret'')],
      csrf_valid = True\<rparr>"

definition plain_name_state :: state where
  "plain_name_state =
     run example_library [Create_admin ''head'' ''Head'' ''secret'' ''salt''] empty_state"

definition example_run :: "operation list" where
  "example_run =
     [Create_admin ''head@school.org'' ''Head'' ''secret'' ''salt'',
      Create_admin '' head@school.org '' ''Other'' ''another'' ''pepper'',
      Admin_login \<lparr>http_method = POST,
                   form = [(''email'', ''head@school.org''), (''password'', ''secret'')],
                   csrf_valid = True\<rparr>,
      Add_notice 7 \<lparr>http_method = POST,
                    form = [(''title'', ''Sports day''), (''content'', ''Friday at nine'')],
                    csrf_valid = False\<rparr>,
      Logout]"


section \<open>Properties\<close>

subsection \<open>Fields and validators\<close>

lemma StringField_submitted:
  "is_submitted r \<Longrightarrow>
     StringField (formdata r) k = \<lparr>data = form_get r k, process_errors = [], errors = []\<rparr>"
  by (simp add: StringField_def formdata_def form_get_def split: list.splits)

lemma IntegerField_submitted:
  "is_submitted r \<Longrightarrow>
     IntegerField L (formdata r) k =
       (case form_get r k of
          None \<Rightarrow> \<lparr>data = None, process_errors = [], errors = []\<rparr>
        | Some v \<Rightarrow>
            (case py_int L v of
               Some i \<Rightarrow> \<lparr>data = Some i, process_errors = [], errors = []\<rparr>
             | None \<Rightarrow> \<lparr>data = None, process_errors = [NotAnInteger], errors = []\<rparr>))"
  by (simp add: IntegerField_def formdata_def form_get_def split: list.splits)

lemma data_Field_validate [simp]: "data (Field_validate vs f) = data f"
  by (simp add: Field_validate_def)

lemma data_validate_csrf_token [simp]: "data (validate_csrf_token r f) = data f"
  by (simp add: validate_csrf_token_def)

lemma errors_Field_validate [simp]:
  "errors (Field_validate vs f) = run_validation_chain vs (data f) (process_errors f)"
  by (simp add: Field_validate_def)

lemma required_str_passed:
  "run_validation_chain (DataRequired_str # vs) d errs = [] \<Longrightarrow> \<exists>v. d = Some v \<and> v \<noteq> []"
  by (cases d) (auto simp: DataRequired_str_def split: if_splits)

lemma required_str_failed:
  "d = None \<or> d = Some [] \<Longrightarrow> run_validation_chain (DataRequired_str # vs) d errs = [Required]"
  by (auto simp: DataRequired_str_def)

lemma required_int_passed:
  "run_validation_chain (DataRequired_int # vs) d errs = [] \<Longrightarrow> \<exists>i. d = Some i \<and> i \<noteq> 0"
  by (cases d) (auto simp: DataRequired_int_def split: if_splits)

lemma required_int_failed:
  "d = None \<or> d = Some 0 \<Longrightarrow> run_validation_chain (DataRequired_int # vs) d errs = [Required]"
  by (auto simp: DataRequired_int_def)

lemma email_length_passed:
  "run_validation_chain [Email L, Length_max m] d [] = [] \<Longrightarrow>
     \<exists>e. d = Some e \<and> validate_email L e \<and> length e \<le> m"
  by (cases d) (auto simp: Email_def Length_max_def split: if_splits)

lemma email_failed:
  "\<not> validate_email L [] \<Longrightarrow> d = None \<or> d = Some [] \<Longrightarrow>
     run_validation_chain [Email L, Length_max m] d [] = [InvalidEmail]"
  by (auto simp: Email_def Length_max_def)

subsection \<open>The fields of a submitted admission form\<close>

lemma validated_student_name:
  "is_submitted r \<Longrightarrow>
     student_name (AdmissionForm_validated L r) =
       \<lparr>data = form_get r ''student_name'', process_errors = [],
         errors = run_validation_chain [DataRequired_str, Length_max 200]
           (form_get r ''student_name'') []\<rparr>"
  by (simp add: AdmissionForm_validated_def AdmissionForm_validate_def AdmissionForm_def
      StringField_submitted Field_validate_def)

lemma validated_student_class:
  "is_submitted r \<Longrightarrow>
     student_class (AdmissionForm_validated L r) =
       \<lparr>data = form_get r ''student_class'', process_errors = [],
         errors = run_validation_chain [DataRequired_str] (form_get r ''student_class'') []\<rparr>"
  by (simp add: AdmissionForm_validated_def AdmissionForm_validate_def AdmissionForm_def
      StringField_submitted Field_validate_def)

lemma validated_parent_email:
  "is_submitted r \<Longrightarrow>
     parent_email (AdmissionForm_validated L r) =
       \<lparr>data = form_get r ''parent_email'', process_errors = [],
         errors = run_validation_chain [Email L, Length_max 150]
           (form_get r ''parent_email'') []\<rparr>"
  by (simp add: AdmissionForm_validated_def AdmissionForm_validate_def AdmissionForm_def
      StringField_submitted Field_validate_def)

lemma validated_phone:
  "is_submitted r \<Longrightarrow> data (phone (AdmissionForm_validated L r)) = form_get r ''phone''"
  by (simp add: AdmissionForm_validated_def AdmissionForm_validate_def AdmissionForm_def
      StringField_submitted)

lemma validated_message:
  "is_submitted r \<Longrightarrow> data (message (AdmissionForm_validated L r)) = form_get r ''message''"
  by (simp add: AdmissionForm_validated_def AdmissionForm_validate_def AdmissionForm_def
      StringField_submitted)

lemma validated_age:
  "is_submitted r \<Longrightarrow>
     age (AdmissionForm_validated L r) =
       (case form_get r ''age'' of
          None \<Rightarrow> \<lparr>data = None, process_errors = [], errors = [Required]\<rparr>
        | Some v \<Rightarrow>
            (case py_int L v of
               None \<Rightarrow> \<lparr>data = None, process_errors = [NotAnInteger], errors = [Required]\<rparr>
             | Some i \<Rightarrow>
                 \<lparr>data = Some i, process_errors = [],
                   errors = (if i = 0 then [Required] else [])\<rparr>))"
  by (simp add: AdmissionForm_validated_def AdmissionForm_validate_def AdmissionForm_def
      IntegerField_submitted Field_validate_def DataRequired_int_def split: option.splits)

subsection \<open>Unfolding the model on concrete inputs\<close>

lemmas eval_defs =
  AdmissionForm_validate_on_submit_def is_submitted_def AdmissionForm_ok_def
  AdmissionForm_validated_def AdmissionForm_validate_def AdmissionForm_def StringField_def
  IntegerField_def formdata_def form_get_def getlist_def Field_validate_def validate_csrf_token_def
  DataRequired_str_def DataRequired_int_def Email_def Length_max_def example_library_def
  decimal_def is_digit_def py_strip_def py_isspace_def

subsection \<open>The admission handler\<close>

lemma admission_rejected:
  assumes "is_submitted r" and "\<not> AdmissionForm_ok (AdmissionForm_validated L r)"
  shows "admission L now r s =
    \<lparr>response = Render ''admission.html'' (AdmissionForm_ctx (AdmissionForm_validated L r)),
      flashes = [], new_state = s\<rparr>"
  using assms by (simp add: admission_def Let_def AdmissionForm_validated_def)

lemma admission_accepted:
  assumes "AdmissionForm_validate_on_submit L r"
  shows "\<exists>n v i. form_get r ''student_name'' = Some n \<and>
    form_get r ''age'' = Some v \<and> py_int L v = Some i \<and>
    data (age (AdmissionForm_validated L r)) = Some i \<and>
    admission L now r s =
      (if fits_int64 i then
         \<lparr>response = Redirect ''admission'',
           flashes = [(''Application submitted. We will contact you soon.'', ''success'')],
           new_state = s\<lparr>admissions := admissions s @
             [\<lparr>admission_id = next_id (map admission_id (admissions s)),
               admission_student_name = n,
               admission_student_class = form_get r ''student_class'',
               admission_age = Some i,
               admission_parent_email = form_get r ''parent_email'',
               admission_phone = form_get r ''phone'',
               admission_message = form_get r ''message'',
               admission_submitted_at = now\<rparr>]\<rparr>\<rparr>
       else \<lparr>response = InternalServerError, flashes = [], new_state = s\<rparr>)"
proof -
  from assms have sub: "is_submitted r"
    and ok: "AdmissionForm_ok (AdmissionForm_validated L r)"
    by (simp_all add: AdmissionForm_validate_on_submit_def)
  from ok have "errors (student_name (AdmissionForm_validated L r)) = []"
    by (simp add: AdmissionForm_ok_def)
  then obtain n where n: "form_get r ''student_name'' = Some n"
    using sub required_str_passed by (fastforce simp: validated_student_name)
  from ok have "errors (age (AdmissionForm_validated L r)) = []"
    by (simp add: AdmissionForm_ok_def)
  with sub obtain v i where v: "form_get r ''age'' = Some v" and i: "py_int L v = Some i"
    and a: "data (age (AdmissionForm_validated L r)) = Some i"
    by (auto simp: validated_age split: option.splits if_splits)
  have "admission L now r s =
      (case commit_Admission now (data (student_name (AdmissionForm_validated L r)))
          (data (student_class (AdmissionForm_validated L r)))
          (data (age (AdmissionForm_validated L r)))
          (data (parent_email (AdmissionForm_validated L r)))
          (data (phone (AdmissionForm_validated L r)))
          (data (message (AdmissionForm_validated L r))) s of
         Inl e \<Rightarrow> \<lparr>response = InternalServerError, flashes = [], new_state = s\<rparr>
       | Inr s' \<Rightarrow>
           \<lparr>response = Redirect ''admission'',
             flashes = [(''Application submitted. We will contact you soon.'', ''success'')],
             new_state = s'\<rparr>)"
    using sub ok by (simp add: admission_def Let_def AdmissionForm_validated_def)
  with sub n v i a show ?thesis
    by (simp add: commit_Admission_def validated_student_name validated_student_class
        validated_parent_email validated_phone validated_message)
qed

lemma fold_max_lower: "(a::int) \<le> fold max ids a"
proof (induction ids arbitrary: a)
  case Nil
  show ?case by simp
next
  case (Cons x xs)
  have "a \<le> max x a" by simp
  also have "\<dots> \<le> fold max xs (max x a)" by (rule Cons.IH)
  finally show ?case by simp
qed

lemma fold_max_upper: "x \<in> set ids \<Longrightarrow> (x::int) \<le> fold max ids a"
proof (induction ids arbitrary: a)
  case Nil
  then show ?case by simp
next
  case (Cons y ys)
  show ?case
  proof (cases "x = y")
    case True
    have "x \<le> max y a" using True by simp
    also have "\<dots> \<le> fold max ys (max y a)" by (rule fold_max_lower)
    finally show ?thesis by simp
  next
    case False
    with Cons.prems have "x \<in> set ys" by simp
    then show ?thesis using Cons.IH by simp
  qed
qed

lemma next_id_fresh: "next_id ids \<notin> set ids"
proof
  assume "next_id ids \<in> set ids"
  then have "next_id ids \<le> fold max ids 0" by (rule fold_max_upper)
  then show False by (simp add: next_id_def)
qed





subsection \<open>Fields that fail\<close>

lemma missing_student_name:
  "is_submitted r \<Longrightarrow> missing r ''student_name'' \<Longrightarrow>
     errors (student_name (AdmissionForm_validated L r)) = [Required]"
  using required_str_failed [of "form_get r ''student_name''"]
  by (simp add: validated_student_name missing_def)

lemma missing_student_class:
  "is_submitted r \<Longrightarrow> missing r ''student_class'' \<Longrightarrow>
     errors (student_class (AdmissionForm_validated L r)) = [Required]"
  using required_str_failed [of "form_get r ''student_class''"]
  by (simp add: validated_student_class missing_def)

lemma missing_parent_email:
  "is_submitted r \<Longrightarrow> \<not> validate_email L [] \<Longrightarrow> missing r ''parent_email'' \<Longrightarrow>
     errors (parent_email (AdmissionForm_validated L r)) = [InvalidEmail]"
  using email_failed [of L "form_get r ''parent_email''" 150]
  by (simp add: validated_parent_email missing_def)

lemma unreadable_age:
  "is_submitted r \<Longrightarrow>
     form_get r ''age'' = None \<or> (\<exists>v. form_get r ''age'' = Some v \<and> py_int L v = None) \<Longrightarrow>
     errors (age (AdmissionForm_validated L r)) = [Required]"
  by (auto simp: validated_age)

lemma zero_age:
  "is_submitted r \<Longrightarrow> form_get r ''age'' = Some v \<Longrightarrow> py_int L v = Some 0 \<Longrightarrow>
     age (AdmissionForm_validated L r) =
       \<lparr>data = Some 0, process_errors = [], errors = [Required]\<rparr>"
  by (simp add: validated_age)

text \<open>
  C2. A submission of the admission form in which the student name, the class or the
  parent email is absent or empty, or the age is absent or is not read as an integer, is
  answered by the form rendered again with its errors; the state is left as it was, so no
  row reaches the table. Every such field carries an error: \<open>Required\<close> for the name, the
  class and the age, \<open>InvalidEmail\<close> for the email. The address check is assumed to
  refuse the empty string, as \<open>email_validator\<close> does.
\<close>

theorem admission_invalid_inserts_nothing:
  assumes "is_submitted r" and "\<not> validate_email L []"
    and "missing r ''student_name'' \<or> missing r ''student_class'' \<or>
         missing r ''parent_email'' \<or> form_get r ''age'' = None \<or>
         (\<exists>v. form_get r ''age'' = Some v \<and> py_int L v = None)"
  shows "admission L now r s =
      \<lparr>response = Render ''admission.html'' (AdmissionForm_ctx (AdmissionForm_validated L r)),
        flashes = [], new_state = s\<rparr> \<and>
    (missing r ''student_name'' \<longrightarrow>
       errors (student_name (AdmissionForm_validated L r)) = [Required]) \<and>
    (missing r ''student_class'' \<longrightarrow>
       errors (student_class (AdmissionForm_validated L r)) = [Required]) \<and>
    (form_get r ''age'' = None \<or> (\<exists>v. form_get r ''age'' = Some v \<and> py_int L v = None) \<longrightarrow>
       errors (age (AdmissionForm_validated L r)) = [Required]) \<and>
    (missing r ''parent_email'' \<longrightarrow>
       errors (parent_email (AdmissionForm_validated L r)) = [InvalidEmail])"
proof -
  note sub = assms(1)
  note name = missing_student_name [OF sub, of L]
  note cls = missing_student_class [OF sub, of L]
  note ag = unreadable_age [OF sub, of L]
  note em = missing_parent_email [OF sub assms(2)]
  from assms(3) name cls ag em have "\<not> AdmissionForm_ok (AdmissionForm_validated L r)"
    by (auto simp: AdmissionForm_ok_def)
  with sub have "admission L now r s =
      \<lparr>response = Render ''admission.html'' (AdmissionForm_ctx (AdmissionForm_validated L r)),
        flashes = [], new_state = s\<rparr>"
    by (rule admission_rejected)
  with name cls ag em show ?thesis by blast
qed

theorem admission_invalid_inserts_nothing_witness:
  "new_state (admission example_library 5 incomplete_submission example_state) = example_state \<and>
   errors (student_name (AdmissionForm_validated example_library incomplete_submission)) = [Required] \<and>
   errors (student_class (AdmissionForm_validated example_library incomplete_submission)) = [Required] \<and>
   errors (age (AdmissionForm_validated example_library incomplete_submission)) = [Required] \<and>
   errors (parent_email (AdmissionForm_validated example_library incomplete_submission)) = [InvalidEmail]"
proof -
  have sub: "is_submitted incomplete_submission"
    by (simp add: is_submitted_def incomplete_submission_def)
  have lib: "\<not> validate_email example_library []"
    by (simp add: example_library_def)
  have g: "missing incomplete_submission ''student_name''"
    "missing incomplete_submission ''student_class''"
    "missing incomplete_submission ''parent_email''"
    "form_get incomplete_submission ''age'' = Some ''fourteen''"
    by (simp_all add: missing_def form_get_def getlist_def incomplete_submission_def)
  have p: "py_int example_library ''fourteen'' = None"
    by (simp add: example_library_def decimal_def is_digit_def)
  from g p have off: "missing incomplete_submission ''student_name'' \<or>
      missing incomplete_submission ''student_class'' \<or>
      missing incomplete_submission ''parent_email'' \<or>
      form_get incomplete_submission ''age'' = None \<or>
      (\<exists>v. form_get incomplete_submission ''age'' = Some v \<and> py_int example_library v = None)"
    by simp
  from admission_invalid_inserts_nothing [OF sub lib off, of 5 example_state] g p
  show ?thesis by simp
qed

text \<open>
  C7. The parent email of a submission is required in effect: when it is absent or empty
  the field carries \<open>InvalidEmail\<close> and the form is rendered again with no row
  inserted; and when the form passes, the submitted parent email is the data of the field,
  is accepted by the address check and is at most 150 characters long, and a row the
  handler then appends stores it. The address check is assumed to refuse the empty string,
  as \<open>email_validator\<close> does.
\<close>

theorem parent_email_required:
  assumes "is_submitted r" and "\<not> validate_email L []"
  shows "(missing r ''parent_email'' \<longrightarrow>
      errors (parent_email (AdmissionForm_validated L r)) = [InvalidEmail] \<and>
      admission L now r s =
        \<lparr>response = Render ''admission.html'' (AdmissionForm_ctx (AdmissionForm_validated L r)),
          flashes = [], new_state = s\<rparr>) \<and>
    (AdmissionForm_ok (AdmissionForm_validated L r) \<longrightarrow>
      (\<exists>e. form_get r ''parent_email'' = Some e \<and>
         data (parent_email (AdmissionForm_validated L r)) = Some e \<and>
         validate_email L e \<and> length e \<le> 150 \<and>
         (\<forall>row. new_state (admission L now r s) = s\<lparr>admissions := admissions s @ [row]\<rparr> \<longrightarrow>
            admission_parent_email row = Some e)))"
proof (intro conjI impI)
  assume m: "missing r ''parent_email''"
  with assms show e: "errors (parent_email (AdmissionForm_validated L r)) = [InvalidEmail]"
    by (rule missing_parent_email)
  then have "\<not> AdmissionForm_ok (AdmissionForm_validated L r)"
    by (simp add: AdmissionForm_ok_def)
  with assms(1) show "admission L now r s =
        \<lparr>response = Render ''admission.html'' (AdmissionForm_ctx (AdmissionForm_validated L r)),
          flashes = [], new_state = s\<rparr>"
    by (rule admission_rejected)
next
  assume ok: "AdmissionForm_ok (AdmissionForm_validated L r)"
  then have "errors (parent_email (AdmissionForm_validated L r)) = []"
    by (simp add: AdmissionForm_ok_def)
  with assms(1) obtain e where e: "form_get r ''parent_email'' = Some e"
    "validate_email L e" "length e \<le> 150"
    using email_length_passed [of L 150 "form_get r ''parent_email''"]
    by (auto simp: validated_parent_email)
  from assms(1) e have d: "data (parent_email (AdmissionForm_validated L r)) = Some e"
    by (simp add: validated_parent_email)
  from assms(1) ok have "AdmissionForm_validate_on_submit L r"
    by (simp add: AdmissionForm_validate_on_submit_def)
  from admission_accepted [OF this, of now s] obtain n i where
    reply: "admission L now r s =
      (if fits_int64 i then
         \<lparr>response = Redirect ''admission'',
           flashes = [(''Application submitted. We will contact you soon.'', ''success'')],
           new_state = s\<lparr>admissions := admissions s @
             [\<lparr>admission_id = next_id (map admission_id (admissions s)),
               admission_student_name = n,
               admission_student_class = form_get r ''student_class'',
               admission_age = Some i,
               admission_parent_email = form_get r ''parent_email'',
               admission_phone = form_get r ''phone'',
               admission_message = form_get r ''message'',
               admission_submitted_at = now\<rparr>]\<rparr>\<rparr>
       else \<lparr>response = InternalServerError, flashes = [], new_state = s\<rparr>)"
    by blast
  have "admission_parent_email row = Some e"
    if "new_state (admission L now r s) = s\<lparr>admissions := admissions s @ [row]\<rparr>" for row
  proof -
    from that have "admissions (new_state (admission L now r s)) = admissions s @ [row]"
      by simp
    with reply e(1) show ?thesis
      by (cases "fits_int64 i") auto
  qed
  with e d
  show "\<exists>e. form_get r ''parent_email'' = Some e \<and>
         data (parent_email (AdmissionForm_validated L r)) = Some e \<and>
         validate_email L e \<and> length e \<le> 150 \<and>
         (\<forall>row. new_state (admission L now r s) = s\<lparr>admissions := admissions s @ [row]\<rparr> \<longrightarrow>
            admission_parent_email row = Some e)"
    by blast
qed

theorem parent_email_required_witness:
  "errors (parent_email (AdmissionForm_validated example_library no_email_submission))
     = [InvalidEmail] \<and>
   new_state (admission example_library 5 no_email_submission example_state) = example_state \<and>
   data (parent_email (AdmissionForm_validated example_library example_submission)) =
     Some ''p@example.com'' \<and>
   validate_email example_library ''p@example.com'' \<and>
   length ''p@example.com'' \<le> (150 :: nat)"
proof -
  have lib: "\<not> validate_email example_library []"
    by (simp add: example_library_def)
  have sub1: "is_submitted no_email_submission"
    by (simp add: is_submitted_def no_email_submission_def)
  have m: "missing no_email_submission ''parent_email''"
    by (simp add: missing_def form_get_def getlist_def no_email_submission_def)
  have sub2: "is_submitted example_submission"
    by (simp add: is_submitted_def example_submission_def)
  have ok: "AdmissionForm_ok (AdmissionForm_validated example_library example_submission)"
    by (simp add: eval_defs example_submission_def)
  have g: "form_get example_submission ''parent_email'' = Some ''p@example.com''"
    by (simp add: form_get_def getlist_def example_submission_def)
  from parent_email_required [OF sub1 lib, of 5 example_state] m
    parent_email_required [OF sub2 lib, of 5 example_state] ok g
  show ?thesis by auto
qed

text \<open>
  C10. When the age of a submission is read by \<open>int\<close> as 0, the field holds the data 0
  and the error \<open>Required\<close>: \<open>DataRequired\<close> takes the falsy 0 for missing data. The
  form does not pass, it is rendered again, and no row is inserted.
\<close>

theorem age_zero_rejected:
  assumes "is_submitted r" and "form_get r ''age'' = Some v" and "py_int L v = Some 0"
  shows "data (age (AdmissionForm_validated L r)) = Some 0 \<and>
    errors (age (AdmissionForm_validated L r)) = [Required] \<and>
    \<not> AdmissionForm_validate_on_submit L r \<and>
    admission L now r s =
      \<lparr>response = Render ''admission.html'' (AdmissionForm_ctx (AdmissionForm_validated L r)),
        flashes = [], new_state = s\<rparr>"
proof -
  from assms have a: "age (AdmissionForm_validated L r) =
      \<lparr>data = Some 0, process_errors = [], errors = [Required]\<rparr>"
    by (rule zero_age)
  then have no: "\<not> AdmissionForm_ok (AdmissionForm_validated L r)"
    by (simp add: AdmissionForm_ok_def)
  with assms(1) have "admission L now r s =
      \<lparr>response = Render ''admission.html'' (AdmissionForm_ctx (AdmissionForm_validated L r)),
        flashes = [], new_state = s\<rparr>"
    by (rule admission_rejected)
  with a no show ?thesis
    by (simp add: AdmissionForm_validate_on_submit_def)
qed

theorem age_zero_rejected_witness:
  "data (age (AdmissionForm_validated example_library age_zero_submission)) = Some 0 \<and>
   errors (age (AdmissionForm_validated example_library age_zero_submission)) = [Required] \<and>
   \<not> AdmissionForm_validate_on_submit example_library age_zero_submission \<and>
   new_state (admission example_library 5 age_zero_submission example_state) = example_state"
proof -
  have sub: "is_submitted age_zero_submission"
    by (simp add: is_submitted_def age_zero_submission_def)
  have g: "form_get age_zero_submission ''age'' = Some ''0''"
    by (simp add: form_get_def getlist_def age_zero_submission_def)
  have p: "py_int example_library ''0'' = Some 0"
    by (simp add: example_library_def decimal_def is_digit_def)
  from age_zero_rejected [OF sub g p, of 5 example_state] show ?thesis by simp
qed


subsection \<open>Queries\<close>

lemma order_by_desc_sorted:
  "sorted_wrt (\<lambda>a b. col b \<le> col a) (order_by_desc col rows)"
proof -
  have "sorted (map (\<lambda>r. - col r) (order_by_desc col rows))"
    by (simp add: order_by_desc_def)
  then show ?thesis by (simp add: sorted_map)
qed

lemma order_by_desc_mset: "mset (order_by_desc col rows) = mset rows"
  by (simp add: order_by_desc_def)

lemma limit_sorted: "sorted_wrt P rows \<Longrightarrow> sorted_wrt P (limit n rows)"
  by (simp add: limit_def)

lemma limit_length: "length (limit n rows) = min n (length rows)"
  by (simp add: limit_def min.commute)

lemma limit_mset: "mset (limit n rows) \<subseteq># mset rows"
proof -
  have "mset rows = mset (take n rows) + mset (drop n rows)"
    by (metis append_take_drop_id mset_append)
  then show ?thesis by (simp add: limit_def)
qed

lemma limit_latest:
  assumes "sorted_wrt (\<lambda>a b. col b \<le> col a) rows"
    and "x \<in> set (limit n rows)" and "y \<in># mset rows - mset (limit n rows)"
  shows "col y \<le> col x"
proof -
  have "mset rows = mset (take n rows) + mset (drop n rows)"
    by (metis append_take_drop_id mset_append)
  with assms(3) have y: "y \<in> set (drop n rows)" by (simp add: limit_def)
  from assms(1) have "sorted_wrt (\<lambda>a b. col b \<le> col a) (take n rows @ drop n rows)"
    by simp
  with assms(2) y show ?thesis
    unfolding sorted_wrt_append by (simp add: limit_def)
qed

subsection \<open>Listings\<close>

text \<open>
  C5. The home page is rendered with at most five notices, and the dashboard with at most
  fifty admissions and with every notice. Each list is in descending order of its
  timestamp (rows of equal time in either order) and holds rows of the table, each as
  often as the table does; a list cut by its limit holds the latest rows: no row left out
  is later than a row listed. The dashboard is what \<open>admin_dashboard\<close> answers to a caller
  who is logged in; any other caller is sent to the login view.
\<close>

theorem listings_limited_and_ordered:
  "(\<exists>ns. response (index s) = Render ''index.html'' (Notices_ctx ns) \<and>
      length ns \<le> 5 \<and> length ns = min 5 (length (notices s)) \<and>
      sorted_wrt (\<lambda>a b. notice_date b \<le> notice_date a) ns \<and>
      mset ns \<subseteq># mset (notices s) \<and>
      (\<forall>x\<in>set ns. \<forall>y\<in>#mset (notices s) - mset ns. notice_date y \<le> notice_date x)) \<and>
   (\<exists>as ns. response (admin_dashboard_view s) =
        Render ''admin_dashboard.html'' (Dashboard_ctx as ns) \<and>
      length as \<le> 50 \<and> length as = min 50 (length (admissions s)) \<and>
      sorted_wrt (\<lambda>a b. admission_submitted_at b \<le> admission_submitted_at a) as \<and>
      mset as \<subseteq># mset (admissions s) \<and>
      (\<forall>x\<in>set as. \<forall>y\<in>#mset (admissions s) - mset as.
         admission_submitted_at y \<le> admission_submitted_at x) \<and>
      mset ns = mset (notices s) \<and>
      sorted_wrt (\<lambda>a b. notice_date b \<le> notice_date a) ns) \<and>
   admin_dashboard s =
     (if is_authenticated s then admin_dashboard_view s
      else \<lparr>response = Redirect ''admin_login'',
             flashes = [(''Please log in to access this page.'', ''message'')],
             new_state = s\<rparr>)"
proof (intro conjI)
  let ?ns = "limit 5 (order_by_desc notice_date (notices s))"
  have "response (index s) = Render ''index.html'' (Notices_ctx ?ns)"
    by (simp add: index_def)
  moreover have "length ?ns = min 5 (length (notices s))"
    using order_by_desc_mset [of notice_date "notices s"]
    by (simp add: limit_length order_by_desc_def)
  moreover have "sorted_wrt (\<lambda>a b. notice_date b \<le> notice_date a) ?ns"
    by (intro limit_sorted order_by_desc_sorted)
  moreover have "mset ?ns \<subseteq># mset (notices s)"
    using limit_mset [of 5 "order_by_desc notice_date (notices s)"]
    by (simp add: order_by_desc_mset)
  moreover have "\<forall>x\<in>set ?ns. \<forall>y\<in>#mset (notices s) - mset ?ns. notice_date y \<le> notice_date x"
    using limit_latest [OF order_by_desc_sorted, of _ 5 notice_date "notices s"]
    by (simp add: order_by_desc_mset)
  ultimately show "\<exists>ns. response (index s) = Render ''index.html'' (Notices_ctx ns) \<and>
      length ns \<le> 5 \<and> length ns = min 5 (length (notices s)) \<and>
      sorted_wrt (\<lambda>a b. notice_date b \<le> notice_date a) ns \<and>
      mset ns \<subseteq># mset (notices s) \<and>
      (\<forall>x\<in>set ns. \<forall>y\<in>#mset (notices s) - mset ns. notice_date y \<le> notice_date x)"
    by (intro exI [of _ ?ns]) simp
next
  let ?as = "limit 50 (order_by_desc admission_submitted_at (admissions s))"
  let ?ns = "order_by_desc notice_date (notices s)"
  have "response (admin_dashboard_view s) =
      Render ''admin_dashboard.html'' (Dashboard_ctx ?as ?ns)"
    by (simp add: admin_dashboard_view_def)
  moreover have "length ?as = min 50 (length (admissions s))"
    by (simp add: limit_length order_by_desc_def)
  moreover have "sorted_wrt (\<lambda>a b. admission_submitted_at b \<le> admission_submitted_at a) ?as"
    by (intro limit_sorted order_by_desc_sorted)
  moreover have "mset ?as \<subseteq># mset (admissions s)"
    using limit_mset [of 50 "order_by_desc admission_submitted_at (admissions s)"]
    by (simp add: order_by_desc_mset)
  moreover have "\<forall>x\<in>set ?as. \<forall>y\<in>#mset (admissions s) - mset ?as.
      admission_submitted_at y \<le> admission_submitted_at x"
    using limit_latest [OF order_by_desc_sorted, of _ 50 admission_submitted_at "admissions s"]
    by (simp add: order_by_desc_mset)
  moreover have "mset ?ns = mset (notices s)"
    by (rule order_by_desc_mset)
  moreover have "sorted_wrt (\<lambda>a b. notice_date b \<le> notice_date a) ?ns"
    by (rule order_by_desc_sorted)
  ultimately show "\<exists>as ns. response (admin_dashboard_view s) =
        Render ''admin_dashboard.html'' (Dashboard_ctx as ns) \<and>
      length as \<le> 50 \<and> length as = min 50 (length (admissions s)) \<and>
      sorted_wrt (\<lambda>a b. admission_submitted_at b \<le> admission_submitted_at a) as \<and>
      mset as \<subseteq># mset (admissions s) \<and>
      (\<forall>x\<in>set as. \<forall>y\<in>#mset (admissions s) - mset as.
         admission_submitted_at y \<le> admission_submitted_at x) \<and>
      mset ns = mset (notices s) \<and>
      sorted_wrt (\<lambda>a b. notice_date b \<le> notice_date a) ns"
    by (intro exI [of _ ?as] exI [of _ ?ns]) simp
next
  show "admin_dashboard s =
     (if is_authenticated s then admin_dashboard_view s
      else \<lparr>response = Redirect ''admin_login'',
             flashes = [(''Please log in to access this page.'', ''message'')],
             new_state = s\<rparr>)"
    by (simp add: admin_dashboard_def login_required_def)
qed

lemmas query_defs = index_def admin_dashboard_def admin_dashboard_view_def login_required_def
  is_authenticated_def load_user_def limit_def order_by_desc_def

theorem listings_limited_and_ordered_witness:
  "is_authenticated notice_board \<and>
   (\<exists>ns. response (index notice_board) = Render ''index.html'' (Notices_ctx ns) \<and>
      map notice_id ns = [7, 6, 5, 4, 3]) \<and>
   (\<exists>as ns. response (admin_dashboard notice_board) =
        Render ''admin_dashboard.html'' (Dashboard_ctx as ns) \<and>
      as = [] \<and> map notice_id ns = [7, 6, 5, 4, 3, 2, 1])"
proof -
  have a: "is_authenticated notice_board"
    by (simp add: notice_board_def is_authenticated_def load_user_def)
  have i: "response (index notice_board) = Render ''index.html''
      (Notices_ctx (map (\<lambda>i. \<lparr>notice_id = i, notice_title = ''t'', notice_content = ''c'',
         notice_date = 10 * i\<rparr>) [7, 6, 5, 4, 3]))"
    by (simp add: notice_board_def query_defs)
  have d: "response (admin_dashboard notice_board) = Render ''admin_dashboard.html''
      (Dashboard_ctx [] (map (\<lambda>i. \<lparr>notice_id = i, notice_title = ''t'', notice_content = ''c'',
         notice_date = 10 * i\<rparr>) [7, 6, 5, 4, 3, 2, 1]))"
    by (simp add: notice_board_def query_defs)
  from listings_limited_and_ordered [of notice_board] a i d show ?thesis by simp
qed


subsection \<open>Notices\<close>

lemma add_notice_view_inserts:
  assumes "form_get r ''title'' = Some t" and "form_get r ''content'' = Some c"
    and "t \<noteq> []" and "c \<noteq> []"
  shows "add_notice_view now r s =
    \<lparr>response = Redirect ''admin_dashboard'', flashes = [(''Notice added'', ''success'')],
      new_state = s\<lparr>notices := notices s @
        [\<lparr>notice_id = next_id (map notice_id (notices s)), notice_title = t,
          notice_content = c, notice_date = now\<rparr>]\<rparr>\<rparr>"
  using assms by (simp add: add_notice_view_def commit_Notice_def)

lemma add_notice_view_skips:
  assumes "missing r ''title'' \<or> missing r ''content''"
  shows "add_notice_view now r s =
    \<lparr>response = Redirect ''admin_dashboard'', flashes = [], new_state = s\<rparr>"
  using assms by (auto simp: add_notice_view_def missing_def split: option.splits)

text \<open>
  C4. For a caller who is logged in, \<open>add_notice\<close> with a title and a content that are
  both present and not empty appends exactly one row to the Notice table, with that title
  and content, the clock at the insertion as its date and a new key, flashes
  "Notice added" and redirects to the dashboard. When the title or the content is absent
  or empty it leaves the state as it was and redirects to the dashboard with no message
  at all.
\<close>

theorem add_notice_inserts_or_skips:
  assumes "is_authenticated s"
  shows "(\<forall>t c. form_get r ''title'' = Some t \<and> form_get r ''content'' = Some c \<and>
            t \<noteq> [] \<and> c \<noteq> [] \<longrightarrow>
      (\<exists>row. add_notice now r s =
          \<lparr>response = Redirect ''admin_dashboard'', flashes = [(''Notice added'', ''success'')],
            new_state = s\<lparr>notices := notices s @ [row]\<rparr>\<rparr> \<and>
         notice_title row = t \<and> notice_content row = c \<and> notice_date row = now \<and>
         notice_id row \<notin> set (map notice_id (notices s)))) \<and>
    (missing r ''title'' \<or> missing r ''content'' \<longrightarrow>
      add_notice now r s =
        \<lparr>response = Redirect ''admin_dashboard'', flashes = [], new_state = s\<rparr>)"
proof (intro conjI allI impI)
  fix t c
  assume "form_get r ''title'' = Some t \<and> form_get r ''content'' = Some c \<and> t \<noteq> [] \<and> c \<noteq> []"
  then have "add_notice_view now r s =
    \<lparr>response = Redirect ''admin_dashboard'', flashes = [(''Notice added'', ''success'')],
      new_state = s\<lparr>notices := notices s @
        [\<lparr>notice_id = next_id (map notice_id (notices s)), notice_title = t,
          notice_content = c, notice_date = now\<rparr>]\<rparr>\<rparr>"
    by (intro add_notice_view_inserts) simp_all
  with assms next_id_fresh [of "map notice_id (notices s)"]
  show "\<exists>row. add_notice now r s =
          \<lparr>response = Redirect ''admin_dashboard'', flashes = [(''Notice added'', ''success'')],
            new_state = s\<lparr>notices := notices s @ [row]\<rparr>\<rparr> \<and>
         notice_title row = t \<and> notice_content row = c \<and> notice_date row = now \<and>
         notice_id row \<notin> set (map notice_id (notices s))"
    by (intro exI [of _ "\<lparr>notice_id = next_id (map notice_id (notices s)), notice_title = t,
          notice_content = c, notice_date = now\<rparr>"])
      (simp add: add_notice_def login_required_def)
next
  assume "missing r ''title'' \<or> missing r ''content''"
  then have "add_notice_view now r s =
    \<lparr>response = Redirect ''admin_dashboard'', flashes = [], new_state = s\<rparr>"
    by (rule add_notice_view_skips)
  with assms show "add_notice now r s =
    \<lparr>response = Redirect ''admin_dashboard'', flashes = [], new_state = s\<rparr>"
    by (simp add: add_notice_def login_required_def)
qed

theorem add_notice_inserts_or_skips_witness:
  "is_authenticated logged_in_state \<and>
   (\<exists>row. add_notice 9 example_notice_request logged_in_state =
      \<lparr>response = Redirect ''admin_dashboard'', flashes = [(''Notice added'', ''success'')],
        new_state = logged_in_state\<lparr>notices := notices logged_in_state @ [row]\<rparr>\<rparr> \<and>
      notice_title row = ''Sports day'' \<and> notice_content row = ''Friday at nine'' \<and>
      notice_date row = 9) \<and>
   add_notice 9 empty_title_request logged_in_state =
     \<lparr>response = Redirect ''admin_dashboard'', flashes = [], new_state = logged_in_state\<rparr>"
proof -
  have a: "is_authenticated logged_in_state"
    by (simp add: logged_in_state_def example_state_def is_authenticated_def load_user_def)
  have g: "form_get example_notice_request ''title'' = Some ''Sports day''"
    "form_get example_notice_request ''content'' = Some ''Friday at nine''"
    by (simp_all add: form_get_def getlist_def example_notice_request_def)
  have m: "missing empty_title_request ''title''"
    by (simp add: missing_def form_get_def getlist_def empty_title_request_def)
  from add_notice_inserts_or_skips [OF a, of example_notice_request 9] g
  have "\<exists>row. add_notice 9 example_notice_request logged_in_state =
      \<lparr>response = Redirect ''admin_dashboard'', flashes = [(''Notice added'', ''success'')],
        new_state = logged_in_state\<lparr>notices := notices logged_in_state @ [row]\<rparr>\<rparr> \<and>
      notice_title row = ''Sports day'' \<and> notice_content row = ''Friday at nine'' \<and>
      notice_date row = 9"
    by auto
  with a add_notice_inserts_or_skips [OF a, of empty_title_request 9] m
  show ?thesis by simp
qed

subsection \<open>What a step does to the tables\<close>

lemma login_required_state:
  "new_state (login_required view s) = s \<or> new_state (login_required view s) = new_state (view s)"
  by (simp add: login_required_def)

lemma admission_state:
  "new_state (admission L now r s) = s \<or>
   (\<exists>row. new_state (admission L now r s) = s\<lparr>admissions := admissions s @ [row]\<rparr>)"
  by (auto simp: admission_def Let_def commit_Admission_def split: option.splits if_splits)

lemma admin_login_state:
  "new_state (admin_login L r s) = s \<or>
   (\<exists>i. new_state (admin_login L r s) = s\<lparr>user_id := Some i\<rparr>)"
  by (auto simp: admin_login_def Let_def invalid_credentials_def split: option.splits)

lemma add_notice_state:
  "new_state (add_notice now r s) = s \<or>
   (\<exists>row. new_state (add_notice now r s) = s\<lparr>notices := notices s @ [row]\<rparr>)"
  by (auto simp: add_notice_def login_required_def add_notice_view_def commit_Notice_def
      split: option.splits)

lemma create_admin_state:
  "create_admin L e n p salt s = Inr (out, s') \<Longrightarrow>
     s' = s \<or>
     (p \<noteq> [] \<and> s' = s\<lparr>admins := admins s @
        [\<lparr>admin_id = next_id (map admin_id (admins s)), admin_email = py_strip e,
          admin_password_hash = generate_password_hash L p salt,
          admin_name = Some (py_strip n)\<rparr>]\<rparr>)"
  by (auto simp: create_admin_def Let_def commit_Admin_def split: if_splits)

lemma step_admissions: "prefix (admissions s) (admissions (step L op s))"
proof (cases op)
  case (Submit_admission now r)
  with admission_state [of L now r s] show ?thesis by auto
next
  case (Admin_login r)
  with admin_login_state [of L r s] show ?thesis by auto
next
  case (Add_notice now r)
  with add_notice_state [of now r s] show ?thesis by auto
next
  case (Create_admin e n p salt)
  then show ?thesis
    by (auto split: sum.splits dest: create_admin_state)
qed (simp_all add: index_def admin_dashboard_def admin_logout_def login_required_def
    admin_dashboard_view_def admin_logout_view_def)

lemma step_notices: "prefix (notices s) (notices (step L op s))"
proof (cases op)
  case (Submit_admission now r)
  with admission_state [of L now r s] show ?thesis by auto
next
  case (Admin_login r)
  with admin_login_state [of L r s] show ?thesis by auto
next
  case (Add_notice now r)
  with add_notice_state [of now r s] show ?thesis by auto
next
  case (Create_admin e n p salt)
  then show ?thesis
    by (auto split: sum.splits dest: create_admin_state)
qed (simp_all add: index_def admin_dashboard_def admin_logout_def login_required_def
    admin_dashboard_view_def admin_logout_view_def)

text \<open>
  C9. The Admission and the Notice table only grow at their end: after any operation, and
  after any list of operations, the rows that were in the two tables are still there,
  unchanged and in the same order, as the first rows of the tables.
\<close>

theorem tables_append_only:
  "prefix (admissions s) (admissions (step L op s)) \<and>
   prefix (notices s) (notices (step L op s)) \<and>
   prefix (admissions s) (admissions (run L ops s)) \<and>
   prefix (notices s) (notices (run L ops s))"
proof -
  have "prefix (admissions s) (admissions (run L ops s)) \<and>
      prefix (notices s) (notices (run L ops s))"
  proof (induction ops arbitrary: s)
    case Nil
    show ?case by (simp add: run_def)
  next
    case (Cons op ops)
    have "run L (op # ops) s = run L ops (step L op s)"
      by (simp add: run_def)
    with Cons.IH [of "step L op s"] step_admissions [of s L op] step_notices [of s L op]
    show ?case by (auto intro: prefix_order.trans)
  qed
  with step_admissions [of s L op] step_notices [of s L op] show ?thesis by simp
qed

theorem tables_append_only_witness:
  "prefix (admissions example_state) (admissions (run example_library example_run example_state)) \<and>
   prefix (notices example_state) (notices (run example_library example_run example_state))"
  using tables_append_only [of example_state example_library Home example_run] by simp


subsection \<open>The login handler\<close>

lemma validated_email:
  "is_submitted r \<Longrightarrow>
     email (LoginForm_validated L r) =
       \<lparr>data = form_get r ''email'', process_errors = [],
         errors = run_validation_chain [DataRequired_str, Email L] (form_get r ''email'') []\<rparr>"
  by (simp add: LoginForm_validated_def LoginForm_validate_def LoginForm_def
      StringField_submitted Field_validate_def)

lemma validated_password:
  "is_submitted r \<Longrightarrow>
     password (LoginForm_validated L r) =
       \<lparr>data = form_get r ''password'', process_errors = [],
         errors = run_validation_chain [DataRequired_str] (form_get r ''password'') []\<rparr>"
  by (simp add: LoginForm_validated_def LoginForm_validate_def LoginForm_def
      StringField_submitted Field_validate_def)

lemma admin_login_rejected:
  assumes "is_submitted r" and "\<not> LoginForm_ok (LoginForm_validated L r)"
  shows "admin_login L r s =
    \<lparr>response = Render ''admin_login.html'' (LoginForm_ctx (LoginForm_validated L r)),
      flashes = [], new_state = s\<rparr>"
  using assms by (simp add: admin_login_def Let_def LoginForm_validated_def)

lemma admin_login_checked:
  assumes "LoginForm_validate_on_submit L r"
  shows "\<exists>e p. form_get r ''email'' = Some e \<and> form_get r ''password'' = Some p \<and>
    admin_login L r s =
      (case first_by_email s e of
         None \<Rightarrow> invalid_credentials (LoginForm_validated L r) s
       | Some a \<Rightarrow>
           if check_password_hash L (admin_password_hash a) p then
             \<lparr>response = Redirect ''admin_dashboard'',
               flashes = [(''Logged in successfully'', ''success'')],
               new_state = s\<lparr>user_id := Some (admin_id a)\<rparr>\<rparr>
           else invalid_credentials (LoginForm_validated L r) s)"
proof -
  from assms have sub: "is_submitted r" and ok: "LoginForm_ok (LoginForm_validated L r)"
    by (simp_all add: LoginForm_validate_on_submit_def)
  from ok have "errors (email (LoginForm_validated L r)) = []"
    and "errors (password (LoginForm_validated L r)) = []"
    by (simp_all add: LoginForm_ok_def)
  with sub obtain e p where e: "form_get r ''email'' = Some e"
    and p: "form_get r ''password'' = Some p"
    using required_str_passed [of "[Email L]" "form_get r ''email''" "[]"]
      required_str_passed [of "[]" "form_get r ''password''" "[]"]
    by (auto simp: validated_email validated_password)
  have "admin_login L r s =
      (case data (email (LoginForm_validated L r)) of
         None \<Rightarrow> invalid_credentials (LoginForm_validated L r) s
       | Some e \<Rightarrow>
           (case first_by_email s e of
              None \<Rightarrow> invalid_credentials (LoginForm_validated L r) s
            | Some admin \<Rightarrow>
                (case data (password (LoginForm_validated L r)) of
                   None \<Rightarrow> \<lparr>response = InternalServerError, flashes = [], new_state = s\<rparr>
                 | Some p \<Rightarrow>
                     if check_password_hash L (admin_password_hash admin) p then
                       \<lparr>response = Redirect ''admin_dashboard'',
                         flashes = [(''Logged in successfully'', ''success'')],
                         new_state = s\<lparr>user_id := Some (admin_id admin)\<rparr>\<rparr>
                     else invalid_credentials (LoginForm_validated L r) s)))"
    using sub ok unfolding admin_login_def Let_def LoginForm_validated_def by simp
  with sub e p show ?thesis
    by (simp add: validated_email validated_password split: option.splits)
qed

lemma first_by_email_authenticates:
  assumes "first_by_email s e = Some a"
  shows "is_authenticated (s\<lparr>user_id := Some (admin_id a)\<rparr>)"
proof -
  from assms have "a \<in> set (admins s)"
    by (auto simp: first_by_email_def find_Some_iff)
  then have "find (\<lambda>b. admin_id b = admin_id a) (admins s) \<noteq> None"
    by (auto simp: find_None_iff)
  then show ?thesis
    by (simp add: is_authenticated_def load_user_def)
qed

text \<open>
  C3, as amended. Take two login submissions that pass \<open>validate_on_submit\<close>, the first
  with an email no Administrator has, the second with the email of an Administrator and a
  password that fails the check against its hash. Both are answered by the login page
  with the one flashed message "Invalid credentials" of category danger, and both leave the
  state, and so the session, as it was. A submission that passes \<open>validate_on_submit\<close>
  with the email of an Administrator and a password that passes the check is answered by
  the redirect to the dashboard and the message "Logged in successfully"; the session then
  names that Administrator and the caller is authenticated. A submission that does not
  pass the validators gets the login page with its field errors and no flashed message, and
  the state is left as it was.
\<close>

theorem admin_login_outcomes:
  "(LoginForm_validate_on_submit L r1 \<and> LoginForm_validate_on_submit L r2 \<and>
      no_such_email s1 r1 \<and> wrong_password L s2 r2 \<longrightarrow>
      admin_login L r1 s1 =
        \<lparr>response = Render ''admin_login.html'' (LoginForm_ctx (LoginForm_validated L r1)),
          flashes = [(''Invalid credentials'', ''danger'')], new_state = s1\<rparr> \<and>
      admin_login L r2 s2 =
        \<lparr>response = Render ''admin_login.html'' (LoginForm_ctx (LoginForm_validated L r2)),
          flashes = [(''Invalid credentials'', ''danger'')], new_state = s2\<rparr> \<and>
      flashes (admin_login L r1 s1) = flashes (admin_login L r2 s2)) \<and>
   (LoginForm_validate_on_submit L r \<and> correct_credentials L s r a \<longrightarrow>
      admin_login L r s =
        \<lparr>response = Redirect ''admin_dashboard'',
          flashes = [(''Logged in successfully'', ''success'')],
          new_state = s\<lparr>user_id := Some (admin_id a)\<rparr>\<rparr> \<and>
      is_authenticated (new_state (admin_login L r s))) \<and>
   (is_submitted r \<and> \<not> LoginForm_ok (LoginForm_validated L r) \<longrightarrow>
      admin_login L r s =
        \<lparr>response = Render ''admin_login.html'' (LoginForm_ctx (LoginForm_validated L r)),
          flashes = [], new_state = s\<rparr>)"
proof (intro conjI impI)
  assume h: "LoginForm_validate_on_submit L r1 \<and> LoginForm_validate_on_submit L r2 \<and>
      no_such_email s1 r1 \<and> wrong_password L s2 r2"
  from h admin_login_checked [of L r1 s1]
  show 1: "admin_login L r1 s1 =
        \<lparr>response = Render ''admin_login.html'' (LoginForm_ctx (LoginForm_validated L r1)),
          flashes = [(''Invalid credentials'', ''danger'')], new_state = s1\<rparr>"
    by (auto simp: no_such_email_def invalid_credentials_def)
  from h admin_login_checked [of L r2 s2]
  show 2: "admin_login L r2 s2 =
        \<lparr>response = Render ''admin_login.html'' (LoginForm_ctx (LoginForm_validated L r2)),
          flashes = [(''Invalid credentials'', ''danger'')], new_state = s2\<rparr>"
    by (auto simp: wrong_password_def invalid_credentials_def split: option.splits)
  from 1 2 show "flashes (admin_login L r1 s1) = flashes (admin_login L r2 s2)"
    by simp
next
  assume h: "LoginForm_validate_on_submit L r \<and> correct_credentials L s r a"
  from h admin_login_checked [of L r s]
  show 3: "admin_login L r s =
        \<lparr>response = Redirect ''admin_dashboard'',
          flashes = [(''Logged in successfully'', ''success'')],
          new_state = s\<lparr>user_id := Some (admin_id a)\<rparr>\<rparr>"
    by (auto simp: correct_credentials_def split: option.splits)
  from h obtain e where "first_by_email s e = Some a"
    by (auto simp: correct_credentials_def split: option.splits)
  then have "is_authenticated (s\<lparr>user_id := Some (admin_id a)\<rparr>)"
    by (rule first_by_email_authenticates)
  with 3 show "is_authenticated (new_state (admin_login L r s))"
    by simp
next
  assume "is_submitted r \<and> \<not> LoginForm_ok (LoginForm_validated L r)"
  then show "admin_login L r s =
        \<lparr>response = Render ''admin_login.html'' (LoginForm_ctx (LoginForm_validated L r)),
          flashes = [], new_state = s\<rparr>"
    by (intro admin_login_rejected) simp_all
qed

lemmas login_defs =
  LoginForm_validate_on_submit_def LoginForm_ok_def LoginForm_validated_def
  LoginForm_validate_def LoginForm_def no_such_email_def wrong_password_def
  correct_credentials_def first_by_email_def invalid_credentials_def admin_login_def

theorem admin_login_outcomes_witness:
  "flashes (admin_login example_library unknown_email_login example_state) =
     [(''Invalid credentials'', ''danger'')] \<and>
   flashes (admin_login example_library bad_password_login example_state) =
     [(''Invalid credentials'', ''danger'')] \<and>
   new_state (admin_login example_library unknown_email_login example_state) = example_state \<and>
   new_state (admin_login example_library bad_password_login example_state) = example_state \<and>
   response (admin_login example_library good_login example_state) = Redirect ''admin_dashboard'' \<and>
   user_id (new_state (admin_login example_library good_login example_state)) = Some 1 \<and>
   flashes (admin_login example_library empty_password_login example_state) = []"
proof -
  have v: "LoginForm_validate_on_submit example_library unknown_email_login"
    "LoginForm_validate_on_submit example_library bad_password_login"
    "LoginForm_validate_on_submit example_library good_login"
    by (simp_all add: login_defs eval_defs unknown_email_login_def bad_password_login_def
        good_login_def)
  have c: "no_such_email example_state unknown_email_login"
    "wrong_password example_library example_state bad_password_login"
    "correct_credentials example_library example_state good_login (hd (admins example_state))"
    by (simp_all add: login_defs eval_defs unknown_email_login_def bad_password_login_def
        good_login_def example_state_def)
  have n: "is_submitted empty_password_login"
    "\<not> LoginForm_ok (LoginForm_validated example_library empty_password_login)"
    by (simp_all add: login_defs eval_defs empty_password_login_def)
  have i: "admin_id (hd (admins example_state)) = 1"
    by (simp add: example_state_def)
  from admin_login_outcomes [where L = example_library and ?r1.0 = unknown_email_login
      and ?r2.0 = bad_password_login and ?s1.0 = example_state and ?s2.0 = example_state
      and r = good_login and s = example_state and a = "hd (admins example_state)"]
    admin_login_outcomes [where L = example_library and ?r1.0 = unknown_email_login
      and ?r2.0 = bad_password_login and ?s1.0 = example_state and ?s2.0 = example_state
      and r = empty_password_login and s = example_state]
    v c n i
  show ?thesis by simp
qed

text \<open>
  Without the condition on the validators the statement fails. In the state with the
  Administrator \<open>head@school.org\<close>, that email with the empty password, a wrong one, is
  answered with the field error \<open>Required\<close> and no flashed message. And the Administrator
  whom \<open>create-admin\<close> made with the email \<open>head\<close> is refused with \<open>InvalidEmail\<close>
  although the email and the password are the right ones.
\<close>

theorem admin_login_counterexample:
  "wrong_password example_library example_state empty_password_login \<and>
   admin_login example_library empty_password_login example_state =
     \<lparr>response = Render ''admin_login.html''
        (LoginForm_ctx
          \<lparr>login_csrf_token = \<lparr>data = None, process_errors = [], errors = []\<rparr>,
            email = \<lparr>data = Some ''head@school.org'', process_errors = [], errors = []\<rparr>,
            password = \<lparr>data = Some [], process_errors = [], errors = [Required]\<rparr>\<rparr>),
      flashes = [], new_state = example_state\<rparr> \<and>
   correct_credentials example_library plain_name_state plain_name_login
     \<lparr>admin_id = 1, admin_email = ''head'', admin_password_hash = ''salt$terces'',
       admin_name = Some ''Head''\<rparr> \<and>
   admin_login example_library plain_name_login plain_name_state =
     \<lparr>response = Render ''admin_login.html''
        (LoginForm_ctx
          \<lparr>login_csrf_token = \<lparr>data = None, process_errors = [], errors = []\<rparr>,
            email = \<lparr>data = Some ''head'', process_errors = [], errors = [InvalidEmail]\<rparr>,
            password = \<lparr>data = Some ''secret'', process_errors = [], errors = []\<rparr>\<rparr>),
      flashes = [], new_state = plain_name_state\<rparr>"
proof -
  have s: "plain_name_state =
      \<lparr>admins = [\<lparr>admin_id = 1, admin_email = ''head'', admin_password_hash = ''salt$terces'',
                   admin_name = Some ''Head''\<rparr>],
        admissions = [], notices = [], user_id = None\<rparr>"
    by (simp add: plain_name_state_def run_def create_admin_def commit_Admin_def
        first_by_email_def next_id_def empty_state_def eval_defs)
  show ?thesis
    unfolding s
    by (simp add: login_defs eval_defs empty_password_login_def plain_name_login_def
        example_state_def)
qed


subsection \<open>The command create-admin\<close>

lemma first_by_email_None:
  "first_by_email s e = None \<longleftrightarrow> e \<notin> set (map admin_email (admins s))"
  by (auto simp: first_by_email_def find_None_iff)

lemma create_admin_returns: "\<exists>out s'. create_admin L e n p salt s = Inr (out, s')"
  by (simp add: create_admin_def Let_def commit_Admin_def first_by_email_None)

text \<open>
  C6, as amended. When the Admin table holds a row with the email the command reads (the
  typed email without the white space around it), \<open>create_admin\<close> inserts nothing and
  leaves the whole state as it was. It does not reach the commit and raises nothing: its
  own lookup refuses the email and it prints "Admin already exists", or, when the password
  (or the email) is empty, the earlier check prints "Email and password are required".
\<close>

theorem create_admin_duplicate_refused:
  assumes "py_strip e \<in> set (map admin_email (admins s))"
  shows "create_admin L e n p salt s =
    Inr (if py_strip e = [] \<or> p = [] then ''Email and password are required''
         else ''Admin already exists'', s)"
  using assms by (simp add: create_admin_def Let_def first_by_email_None)

theorem create_admin_duplicate_refused_witness:
  "create_admin example_library '' head@school.org '' ''Other'' ''another'' ''pepper''
     example_state = Inr (''Admin already exists'', example_state)"
proof -
  have s: "py_strip '' head@school.org '' = ''head@school.org''"
    by (simp add: py_strip_def py_isspace_def)
  have "py_strip '' head@school.org '' \<in> set (map admin_email (admins example_state))"
    unfolding s by (simp add: example_state_def)
  from create_admin_duplicate_refused [OF this, of example_library "''Other''" "''another''"
      "''pepper''"] s
  show ?thesis by simp
qed

text \<open>
  With the email of the Administrator of the example state the command returns normally in
  both cases, with no \<open>IntegrityError\<close>; with the empty password its message does not
  speak of the email at all.
\<close>

theorem create_admin_counterexample:
  "py_strip ''head@school.org'' \<in> set (map admin_email (admins example_state)) \<and>
   create_admin example_library ''head@school.org'' ''Other'' [] ''pepper'' example_state =
     Inr (''Email and password are required'', example_state) \<and>
   create_admin example_library ''head@school.org'' ''Other'' ''another'' ''pepper''
     example_state = Inr (''Admin already exists'', example_state) \<and>
   create_admin example_library ''head@school.org'' ''Other'' ''another'' ''pepper''
     example_state \<noteq> Inl IntegrityError"
proof -
  have s: "py_strip ''head@school.org'' = ''head@school.org''"
    by (simp add: py_strip_def py_isspace_def)
  show ?thesis
    by (simp add: create_admin_def Let_def s first_by_email_def example_state_def)
qed

subsection \<open>What a run writes to the Admin table\<close>

lemma step_admins:
  "admins (step L op s) = admins s \<or>
   (\<exists>e n p salt. op = Create_admin e n p salt \<and> p \<noteq> [] \<and>
      admins (step L op s) = admins s @
        [\<lparr>admin_id = next_id (map admin_id (admins s)), admin_email = py_strip e,
          admin_password_hash = generate_password_hash L p salt,
          admin_name = Some (py_strip n)\<rparr>])"
proof (cases op)
  case (Submit_admission now r)
  with admission_state [of L now r s] show ?thesis by auto
next
  case (Admin_login r)
  with admin_login_state [of L r s] show ?thesis by auto
next
  case (Add_notice now r)
  with add_notice_state [of now r s] show ?thesis by auto
next
  case (Create_admin e n p salt)
  from create_admin_returns [of L e n p salt s] obtain out s'
    where r: "create_admin L e n p salt s = Inr (out, s')" by blast
  from create_admin_state [OF r] r Create_admin show ?thesis by auto
qed (simp_all add: index_def admin_dashboard_def admin_logout_def login_required_def
    admin_dashboard_view_def admin_logout_view_def)

lemma run_admins:
  assumes "a \<in> set (admins (run L ops s))"
  shows "a \<in> set (admins s) \<or>
    (\<exists>e n p salt. Create_admin e n p salt \<in> set ops \<and> p \<noteq> [] \<and>
       admin_email a = py_strip e \<and> admin_name a = Some (py_strip n) \<and>
       admin_password_hash a = generate_password_hash L p salt)"
  using assms
proof (induction ops arbitrary: s)
  case Nil
  then show ?case by (simp add: run_def)
next
  case (Cons op ops)
  from Cons.prems have "a \<in> set (admins (run L ops (step L op s)))"
    by (simp add: run_def)
  from Cons.IH [OF this] show ?case
  proof
    assume "a \<in> set (admins (step L op s))"
    with step_admins [of L op s] show ?thesis by fastforce
  next
    assume "\<exists>e n p salt. Create_admin e n p salt \<in> set ops \<and> p \<noteq> [] \<and>
       admin_email a = py_strip e \<and> admin_name a = Some (py_strip n) \<and>
       admin_password_hash a = generate_password_hash L p salt"
    then show ?thesis by fastforce
  qed
qed

text \<open>
  C8. In every state a list of operations reaches from the empty state, each row of the
  Admin table was written by a \<open>create-admin\<close> of that list, and what the row holds as
  \<open>password_hash\<close> is the value of \<open>generate_password_hash\<close> on the password typed there
  and the salt drawn; the email and the name of the row are the typed email and name
  without the white space around them. No other operation writes to the table, and no
  other column takes the password. That \<open>generate_password_hash\<close> is a salted one-way
  hash is a property of werkzeug, which is a parameter here.
\<close>

theorem only_password_hash_stored:
  "\<forall>a\<in>set (admins (run L ops empty_state)).
     \<exists>e n p salt. Create_admin e n p salt \<in> set ops \<and> p \<noteq> [] \<and>
       admin_email a = py_strip e \<and> admin_name a = Some (py_strip n) \<and>
       admin_password_hash a = generate_password_hash L p salt"
proof
  fix a
  assume "a \<in> set (admins (run L ops empty_state))"
  from run_admins [OF this] show "\<exists>e n p salt. Create_admin e n p salt \<in> set ops \<and> p \<noteq> [] \<and>
       admin_email a = py_strip e \<and> admin_name a = Some (py_strip n) \<and>
       admin_password_hash a = generate_password_hash L p salt"
    by (simp add: empty_state_def)
qed

theorem only_password_hash_stored_witness:
  "admins (run example_library example_run empty_state) =
     [\<lparr>admin_id = 1, admin_email = ''head@school.org'',
       admin_password_hash = generate_password_hash example_library ''secret'' ''salt'',
       admin_name = Some ''Head''\<rparr>] \<and>
   (\<exists>e n p salt. Create_admin e n p salt \<in> set example_run \<and>
      generate_password_hash example_library p salt = ''salt$terces'')"
proof -
  have s: "py_strip ''head@school.org'' = ''head@school.org''"
    "py_strip '' head@school.org '' = ''head@school.org''"
    "py_strip ''Head'' = ''Head''"
    by (simp_all add: py_strip_def py_isspace_def)
  have a: "admins (run example_library example_run empty_state) =
     [\<lparr>admin_id = 1, admin_email = ''head@school.org'',
       admin_password_hash = generate_password_hash example_library ''secret'' ''salt'',
       admin_name = Some ''Head''\<rparr>]"
    by (simp add: run_def example_run_def empty_state_def create_admin_def Let_def s
        commit_Admin_def first_by_email_def next_id_def admin_login_def LoginForm_def
        LoginForm_validate_def LoginForm_ok_def invalid_credentials_def admin_logout_def
        admin_logout_view_def add_notice_def add_notice_view_def login_required_def
        is_authenticated_def load_user_def commit_Notice_def eval_defs)
  have h: "generate_password_hash example_library ''secret'' ''salt'' = ''salt$terces''"
    by (simp add: example_library_def)
  from only_password_hash_stored [of example_library example_run] a
  have "\<exists>e n p salt. Create_admin e n p salt \<in> set example_run \<and>
      generate_password_hash example_library ''secret'' ''salt'' =
        generate_password_hash example_library p salt"
    by fastforce
  with a h show ?thesis by (simp add: eq_commute)
qed

end
